theory Spec2Isabelle
  imports Complex_Main "HOL-Library.Word"
begin

section \<open>Values, strings and dictionaries\<close>

text \<open>
  A Python \<open>str\<close> is a sequence of code points (0 to 0x10FFFF, lone surrogates
  included); \<open>bytes\<close> is a sequence of octets. Field names, which are identifiers
  of the source, are written as HOL strings.
\<close>

type_synonym pystr = "nat list"
type_synonym bytes = "8 word list"

definition str :: "string \<Rightarrow> pystr" where
  "str s = map of_char s"

text \<open>The values a model field can hold, as \<open>model_to_dict\<close> hands them out.\<close>

datatype pyval = PyNone | PyStr pystr | PyBool bool | PyInt int | PyFloat real

text \<open>A \<open>dict\<close> keeps its keys in insertion order: an association list.\<close>

type_synonym pydict = "(string \<times> pyval) list"

definition keys :: "pydict \<Rightarrow> string list" where
  "keys d = map fst d"

fun text_value :: "pystr option \<Rightarrow> pyval" where
  "text_value None = PyNone"
| "text_value (Some s) = PyStr s"

fun bool_value :: "bool option \<Rightarrow> pyval" where
  "bool_value None = PyNone"
| "bool_value (Some b) = PyBool b"

fun int_value :: "int option \<Rightarrow> pyval" where
  "int_value None = PyNone"
| "int_value (Some i) = PyInt i"

text \<open>
  A \<open>FloatField\<close> does not convert what is assigned to it: in memory it holds the
  number as written, an \<open>int\<close> or a \<open>float\<close>.
\<close>

datatype number = IntNumber int | FloatNumber real

fun float_value :: "number option \<Rightarrow> pyval" where
  "float_value None = PyNone"
| "float_value (Some (IntNumber i)) = PyInt i"
| "float_value (Some (FloatNumber x)) = PyFloat x"

text \<open>
  \<open>playhouse.shortcuts.model_to_dict(model, recurse, backrefs, exclude)\<close> as the two
  \<open>as_dict\<close> methods call it (no recursion into foreign keys, no back references):
  it walks the declared fields in order, skips the excluded ones and stores the field's
  current value under the field's name, null or not.
\<close>

definition model_to_dict :: "(string \<times> pyval) list \<Rightarrow> string list \<Rightarrow> pydict" where
  "model_to_dict fields exclude = filter (\<lambda>(k, v). k \<notin> set exclude) fields"

section \<open>UserOptions\<close>

text \<open>
  Every column is nullable (\<open>null=True\<close>); \<open>options_id\<close> is the primary key \<open>id\<close>
  that \<open>BaseModel\<close> adds, unset until the row is inserted.
\<close>

record UserOptions =
  options_id :: "int option"
  fow_colour :: "pystr option"
  grid_colour :: "pystr option"
  ruler_colour :: "pystr option"
  invert_alt :: "bool option"
  disable_scroll_to_zoom :: "bool option"
  use_high_dpi :: "bool option"
  grid_size :: "int option"
  use_as_physical_board :: "bool option"
  mini_size :: "number option"
  ppi :: "int option"
  initiative_camera_lock :: "bool option"
  initiative_vision_lock :: "bool option"
  initiative_effect_visibility :: "pystr option"

text \<open>The \<open>default=\<close> of each field declaration, loaded by the model constructor.\<close>

definition UserOptions_defaults :: UserOptions where
  "UserOptions_defaults =
    \<lparr> options_id = None,
      fow_colour = Some (str ''#000''),
      grid_colour = Some (str ''#000''),
      ruler_colour = Some (str ''#F00''),
      invert_alt = Some False,
      disable_scroll_to_zoom = Some False,
      use_high_dpi = Some False,
      grid_size = Some 50,
      use_as_physical_board = Some False,
      mini_size = Some (IntNumber 1),
      ppi = Some 96,
      initiative_camera_lock = Some False,
      initiative_vision_lock = Some False,
      initiative_effect_visibility = Some (str ''active'') \<rparr>"

text \<open>The declared fields in declaration order, each with its current value.\<close>

definition UserOptions_fields :: "UserOptions \<Rightarrow> (string \<times> pyval) list" where
  "UserOptions_fields self =
    [ (''id'', int_value (options_id self)),
      (''fow_colour'', text_value (fow_colour self)),
      (''grid_colour'', text_value (grid_colour self)),
      (''ruler_colour'', text_value (ruler_colour self)),
      (''invert_alt'', bool_value (invert_alt self)),
      (''disable_scroll_to_zoom'', bool_value (disable_scroll_to_zoom self)),
      (''use_high_dpi'', bool_value (use_high_dpi self)),
      (''grid_size'', int_value (grid_size self)),
      (''use_as_physical_board'', bool_value (use_as_physical_board self)),
      (''mini_size'', float_value (mini_size self)),
      (''ppi'', int_value (ppi self)),
      (''initiative_camera_lock'', bool_value (initiative_camera_lock self)),
      (''initiative_vision_lock'', bool_value (initiative_vision_lock self)),
      (''initiative_effect_visibility'', text_value (initiative_effect_visibility self)) ]"

text \<open>
  \<open>UserOptions.as_dict\<close>: the comprehension keeps the items of
  \<open>model_to_dict(self, exclude=[UserOptions.id])\<close> whose value is not \<open>None\<close>.
  The method reads \<open>self\<close> and assigns nothing, so the model returns the
  dictionary alone.
\<close>

definition UserOptions_as_dict :: "UserOptions \<Rightarrow> pydict" where
  "UserOptions_as_dict self =
    filter (\<lambda>(k, v). v \<noteq> PyNone) (model_to_dict (UserOptions_fields self) [''id''])"

section \<open>User and the store\<close>

text \<open>
  \<open>user_id\<close> is the primary key \<open>id\<close>, \<open>default_options\<close> the key of the
  referenced \<open>UserOptions\<close> row. An attribute that was never assigned reads as
  \<open>None\<close>, so every field is optional in memory.
\<close>

record User =
  user_id :: "int option"
  name :: "pystr option"
  email :: "pystr option"
  password_hash :: "pystr option"
  default_options :: "int option"

text \<open>
  The two tables, one row per saved instance, in insertion order. A query without
  \<open>ORDER BY\<close> reads them in that order.
\<close>

record database =
  useroptions_table :: "UserOptions list"
  user_table :: "User list"

text \<open>The key the store gives to an inserted row: one more than the largest in use.\<close>

definition next_id :: "int option list \<Rightarrow> int" where
  "next_id ids = fold (\<lambda>i m. case i of None \<Rightarrow> m | Some j \<Rightarrow> max j m) ids 0 + 1"

text \<open>
  \<open>Model.create(**kwargs)\<close> on \<open>UserOptions\<close>: the constructor loads the field
  defaults, then assigns the keyword arguments over them; \<open>save\<close> inserts the row and
  sets the primary key. The keyword arguments are the record update \<open>kwargs\<close>.
\<close>

definition UserOptions_create ::
    "(UserOptions \<Rightarrow> UserOptions) \<Rightarrow> database \<Rightarrow> UserOptions \<times> database" where
  "UserOptions_create kwargs db =
    (let inst = kwargs UserOptions_defaults;
         saved = inst\<lparr>options_id := Some (next_id (map options_id (useroptions_table db)))\<rparr>
     in (saved, db\<lparr>useroptions_table := useroptions_table db @ [saved]\<rparr>))"

text \<open>\<open>UserOptions.create_empty\<close>: the eleven keyword arguments of the source, each \<open>None\<close>.\<close>

definition create_empty :: "database \<Rightarrow> UserOptions \<times> database" where
  "create_empty db =
    UserOptions_create
      (\<lambda>inst. inst\<lparr>
         fow_colour := None,
         grid_colour := None,
         ruler_colour := None,
         invert_alt := None,
         disable_scroll_to_zoom := None,
         use_high_dpi := None,
         grid_size := None,
         use_as_physical_board := None,
         initiative_camera_lock := None,
         initiative_vision_lock := None,
         initiative_effect_visibility := None\<rparr>)
      db"

section \<open>Text encoding\<close>

datatype error = UnicodeEncodeError | UnicodeDecodeError | ValueError

text \<open>
  \<open>str.encode("utf8")\<close>: one to four octets per code point. The codec is strict: a
  surrogate code point (0xD800 to 0xDFFF) raises \<open>UnicodeEncodeError\<close>. Code points above
  0x10FFFF do not occur in a \<open>str\<close>; the model refuses them as well.
\<close>

definition scalar_value :: "nat \<Rightarrow> bool" where
  "scalar_value c = (c < 0xD800 \<or> (0xDFFF < c \<and> c < 0x110000))"

definition encode_codepoint :: "nat \<Rightarrow> bytes option" where
  "encode_codepoint c =
    (if c < 0x80 then Some [of_nat c]
     else if c < 0x800 then Some [of_nat (0xC0 + c div 64), of_nat (0x80 + c mod 64)]
     else if 0xD800 \<le> c \<and> c \<le> 0xDFFF then None
     else if c < 0x10000 then
       Some [of_nat (0xE0 + c div 4096), of_nat (0x80 + c div 64 mod 64), of_nat (0x80 + c mod 64)]
     else if c < 0x110000 then
       Some [of_nat (0xF0 + c div 262144), of_nat (0x80 + c div 4096 mod 64),
             of_nat (0x80 + c div 64 mod 64), of_nat (0x80 + c mod 64)]
     else None)"

fun encode_utf8 :: "pystr \<Rightarrow> error + bytes" where
  "encode_utf8 [] = Inr []"
| "encode_utf8 (c # cs) =
    (case encode_codepoint c of
       None \<Rightarrow> Inl UnicodeEncodeError
     | Some bs \<Rightarrow> (case encode_utf8 cs of Inl e \<Rightarrow> Inl e | Inr rest \<Rightarrow> Inr (bs @ rest)))"

text \<open>
  \<open>bytes.decode("utf8")\<close>, strict as well: a wrong lead octet, a missing or wrong
  continuation octet, an overlong form, an encoded surrogate or a value above 0x10FFFF
  raises \<open>UnicodeDecodeError\<close>.
\<close>

definition continuation :: "8 word \<Rightarrow> bool" where
  "continuation b = (0x80 \<le> b \<and> b \<le> 0xBF)"

definition payload :: "8 word \<Rightarrow> nat" where
  "payload b = unat b - 0x80"

definition prepend :: "nat \<Rightarrow> error + pystr \<Rightarrow> error + pystr" where
  "prepend c r = (case r of Inl e \<Rightarrow> Inl e | Inr s \<Rightarrow> Inr (c # s))"

fun decode_utf8 :: "bytes \<Rightarrow> error + pystr" where
  "decode_utf8 [] = Inr []"
| "decode_utf8 (b0 # bs) =
    (if b0 < 0x80 then prepend (unat b0) (decode_utf8 bs)
     else if 0xC2 \<le> b0 \<and> b0 \<le> 0xDF then
       (case bs of
          b1 # r \<Rightarrow>
            if continuation b1
            then prepend ((unat b0 - 0xC0) * 64 + payload b1) (decode_utf8 r)
            else Inl UnicodeDecodeError
        | _ \<Rightarrow> Inl UnicodeDecodeError)
     else if 0xE0 \<le> b0 \<and> b0 \<le> 0xEF then
       (case bs of
          b1 # b2 # r \<Rightarrow>
            if (if b0 = 0xE0 then 0xA0 else 0x80) \<le> b1
               \<and> b1 \<le> (if b0 = 0xED then 0x9F else 0xBF) \<and> continuation b2
            then prepend ((unat b0 - 0xE0) * 4096 + payload b1 * 64 + payload b2) (decode_utf8 r)
            else Inl UnicodeDecodeError
        | _ \<Rightarrow> Inl UnicodeDecodeError)
     else if 0xF0 \<le> b0 \<and> b0 \<le> 0xF4 then
       (case bs of
          b1 # b2 # b3 # r \<Rightarrow>
            if (if b0 = 0xF0 then 0x90 else 0x80) \<le> b1
               \<and> b1 \<le> (if b0 = 0xF4 then 0x8F else 0xBF)
               \<and> continuation b2 \<and> continuation b3
            then prepend ((unat b0 - 0xF0) * 262144 + payload b1 * 4096 + payload b2 * 64
                          + payload b3) (decode_utf8 r)
            else Inl UnicodeDecodeError
        | _ \<Rightarrow> Inl UnicodeDecodeError)
     else Inl UnicodeDecodeError)"

section \<open>The password hashing package\<close>

text \<open>
  The two functions of the package \<open>bcrypt\<close> that the model calls, taken as parameters:
  \<open>hashpw password salt\<close> and \<open>checkpw password hashed_password\<close>, each returning its
  result or raising. The third, \<open>gensalt()\<close>, draws a random salt; the value it returns
  in a call is the argument \<open>salt\<close> of \<open>set_password\<close> below.
\<close>

record bcrypt =
  hashpw :: "bytes \<Rightarrow> bytes \<Rightarrow> error + bytes"
  checkpw :: "bytes \<Rightarrow> bytes \<Rightarrow> error + bool"

text \<open>
  What the package promises for one password and one salt: hashing succeeds, the hash is
  ASCII text, and the hash verifies against the password it was made from.
\<close>

definition hashes_and_verifies :: "bcrypt \<Rightarrow> bytes \<Rightarrow> bytes \<Rightarrow> bool" where
  "hashes_and_verifies B password salt =
    (case hashpw B password salt of
       Inl e \<Rightarrow> False
     | Inr h \<Rightarrow> list_all (\<lambda>b. b < 0x80) h \<and> checkpw B password h = Inr True)"

section \<open>The methods of User\<close>

definition User_fields :: "User \<Rightarrow> (string \<times> pyval) list" where
  "User_fields self =
    [ (''id'', int_value (user_id self)),
      (''name'', text_value (name self)),
      (''email'', text_value (email self)),
      (''password_hash'', text_value (password_hash self)),
      (''default_options'', int_value (default_options self)) ]"

text \<open>
  \<open>User.set_password\<close>: encode, hash with a fresh salt, decode, assign. The method
  assigns one attribute of \<open>self\<close> and calls nothing of the store; the model returns the
  instance and the store as they are after the call. An exception leaves both as they were.
\<close>

definition set_password ::
    "bcrypt \<Rightarrow> bytes \<Rightarrow> User \<Rightarrow> pystr \<Rightarrow> database \<Rightarrow> error + (User \<times> database)" where
  "set_password B salt self pw db =
    (case encode_utf8 pw of
       Inl e \<Rightarrow> Inl e
     | Inr pwb \<Rightarrow>
        (case hashpw B pwb salt of
           Inl e \<Rightarrow> Inl e
         | Inr pwhash \<Rightarrow>
            (case decode_utf8 pwhash of
               Inl e \<Rightarrow> Inl e
             | Inr s \<Rightarrow> Inr (self\<lparr>password_hash := Some s\<rparr>, db))))"

text \<open>\<open>User.check_password\<close>: the stored hash is encoded first, then the candidate.\<close>

definition check_password :: "bcrypt \<Rightarrow> User \<Rightarrow> pystr \<Rightarrow> error + bool" where
  "check_password B self pw =
    (case password_hash self of
       None \<Rightarrow> Inr False
     | Some h \<Rightarrow>
        (case encode_utf8 h of
           Inl e \<Rightarrow> Inl e
         | Inr expected_hash \<Rightarrow>
            (case encode_utf8 pw of
               Inl e \<Rightarrow> Inl e
             | Inr pwb \<Rightarrow> checkpw B pwb expected_hash)))"

text \<open>\<open>User.as_dict\<close>: \<open>model_to_dict\<close> without the three excluded fields.\<close>

definition User_as_dict :: "User \<Rightarrow> pydict" where
  "User_as_dict self =
    model_to_dict (User_fields self) [''id'', ''password_hash'', ''default_options'']"

text \<open>
  \<open>User.by_name\<close>: \<open>get_or_none\<close> of the rows where \<open>Lower(name)\<close> equals
  \<open>name.lower()\<close>: the first such row, or \<open>None\<close>. The two lowerings are different
  functions, the store's SQL \<open>LOWER\<close> on the column and Python's \<open>str.lower\<close> on the
  argument, and both are parameters. A null column never compares equal.
\<close>

definition name_matches :: "(pystr \<Rightarrow> pystr) \<Rightarrow> (pystr \<Rightarrow> pystr) \<Rightarrow> pystr \<Rightarrow> User \<Rightarrow> bool" where
  "name_matches Lower lower n row =
    (case name row of None \<Rightarrow> False | Some stored \<Rightarrow> Lower stored = lower n)"

definition by_name ::
    "(pystr \<Rightarrow> pystr) \<Rightarrow> (pystr \<Rightarrow> pystr) \<Rightarrow> database \<Rightarrow> pystr \<Rightarrow> User option" where
  "by_name Lower lower db n = find (name_matches Lower lower n) (user_table db)"

section \<open>Concrete inputs\<close>

text \<open>
  A stand-in with the interface of the package, to run the theorems on concrete inputs.
  Like the package it raises \<open>ValueError\<close> (``Invalid salt'') when its second argument
  does not have the form of a salt (here: the form \<open>gensalt()\<close> produces by default, the
  prefix \<open>$2b$12$\<close> and 22 characters of the crypt alphabet), it returns the 29 octets of
  the salt followed by 31 characters, it reads 72 octets of the password at most, and
  \<open>checkpw\<close> hashes the candidate with the stored hash as salt and compares. The
  Blowfish digest is replaced by a transliteration of the password.
\<close>

definition bytes_of :: "string \<Rightarrow> bytes" where
  "bytes_of s = map of_char s"

definition crypt_alphabet :: bytes where
  "crypt_alphabet = bytes_of ''./ABCDEFGHIJKLMNOPQRSTUVWXYZabcdefghijklmnopqrstuvwxyz0123456789''"

definition well_formed_salt :: "bytes \<Rightarrow> bool" where
  "well_formed_salt s =
    (29 \<le> length s \<and> take 7 s = bytes_of ''$2b$12$''
     \<and> list_all (\<lambda>b. b \<in> set crypt_alphabet) (take 22 (drop 7 s)))"

definition stub_digest :: "bytes \<Rightarrow> bytes" where
  "stub_digest password =
    take 31 (map (\<lambda>b. crypt_alphabet ! (unat b mod 64)) (take 72 password)
             @ bytes_of ''...............................'')"

definition stub_hashpw :: "bytes \<Rightarrow> bytes \<Rightarrow> error + bytes" where
  "stub_hashpw password salt =
    (if well_formed_salt salt then Inr (take 29 salt @ stub_digest password) else Inl ValueError)"

definition stub_checkpw :: "bytes \<Rightarrow> bytes \<Rightarrow> error + bool" where
  "stub_checkpw password hashed_password =
    (case stub_hashpw password hashed_password of
       Inl e \<Rightarrow> Inl e
     | Inr h \<Rightarrow> Inr (h = hashed_password))"

definition bcrypt_stub :: bcrypt where
  "bcrypt_stub = \<lparr> hashpw = stub_hashpw, checkpw = stub_checkpw \<rparr>"

definition salt0 :: bytes where
  "salt0 = bytes_of ''$2b$12$abcdefghijklmnopqrstuv''"

text \<open>
  The two lowerings that meet in \<open>by_name\<close>. The store is an SQLite file, and the
  built-in \<open>LOWER\<close> of SQLite converts the letters A to Z and leaves every other
  character as it is.
\<close>

definition lower_ascii_letter :: "nat \<Rightarrow> nat" where
  "lower_ascii_letter c = (if 65 \<le> c \<and> c \<le> 90 then c + 32 else c)"

definition sql_lower :: "pystr \<Rightarrow> pystr" where
  "sql_lower s = map lower_ascii_letter s"

text \<open>
  Python's \<open>str.lower\<close> on text whose code points are all below 0x100: besides A to Z
  it lowers the Latin-1 capitals 0xC0 to 0xDE (the multiplication sign 0xD7 is no letter and
  stays). Above 0xFF \<open>str.lower\<close> has further cases, which are left out here: the
  function is applied to Latin-1 text only.
\<close>

definition lower_latin1 :: "pystr \<Rightarrow> pystr" where
  "lower_latin1 s =
    map (\<lambda>c. if (65 \<le> c \<and> c \<le> 90) \<or> (0xC0 \<le> c \<and> c \<le> 0xDE \<and> c \<noteq> 0xD7)
             then c + 32 else c) s"

text \<open>
  Equality of two texts up to the case of the letters A to Z, stated letter by letter and
  without any lowering.
\<close>

definition same_letter :: "nat \<Rightarrow> nat \<Rightarrow> bool" where
  "same_letter a b =
    (a = b \<or> (65 \<le> a \<and> a \<le> 90 \<and> b = a + 32) \<or> (65 \<le> b \<and> b \<le> 90 \<and> a = b + 32))"

definition equal_ignoring_case :: "pystr \<Rightarrow> pystr \<Rightarrow> bool" where
  "equal_ignoring_case s n = list_all2 same_letter s n"

text \<open>The name \<open>Emile\<close> with an acute accent on its capital E (code point 0xC9).\<close>

definition emile_name :: pystr where
  "emile_name = [0xC9, 109, 105, 108, 101]"

definition emile :: User where
  "emile = \<lparr> user_id = Some 2, name = Some emile_name, email = None,
             password_hash = None, default_options = Some 2 \<rparr>"

definition alice :: User where
  "alice = \<lparr> user_id = Some 1, name = Some (str ''alice''), email = None,
             password_hash = None, default_options = Some 1 \<rparr>"

definition hash0 :: pystr where
  "hash0 = str ''$2b$12$abcdefghijklmnopqrstuvu1.............................''"

definition alice_with_password :: User where
  "alice_with_password = alice\<lparr>password_hash := Some hash0\<rparr>"

definition empty_db :: database where
  "empty_db = \<lparr> useroptions_table = [], user_table = [] \<rparr>"

definition db0 :: database where
  "db0 = \<lparr> useroptions_table = [fst (create_empty empty_db)], user_table = [alice] \<rparr>"

definition db1 :: database where
  "db1 = \<lparr> useroptions_table = [], user_table = [alice, emile] \<rparr>"

section \<open>Properties of UserOptions\<close>

lemma text_value_eq_PyNone [simp]: "text_value x = PyNone \<longleftrightarrow> x = None"
  by (cases x) simp_all

lemma bool_value_eq_PyNone [simp]: "bool_value x = PyNone \<longleftrightarrow> x = None"
  by (cases x) simp_all

lemma int_value_eq_PyNone [simp]: "int_value x = PyNone \<longleftrightarrow> x = None"
  by (cases x) simp_all

lemma float_value_eq_PyNone [simp]: "float_value x = PyNone \<longleftrightarrow> x = None"
  by (cases x rule: float_value.cases) simp_all

lemma create_empty_instance:
  "fst (create_empty db) =
    \<lparr> options_id = Some (next_id (map options_id (useroptions_table db))),
      fow_colour = None, grid_colour = None, ruler_colour = None,
      invert_alt = None, disable_scroll_to_zoom = None, use_high_dpi = None,
      grid_size = None, use_as_physical_board = None,
      mini_size = Some (IntNumber 1), ppi = Some 96,
      initiative_camera_lock = None, initiative_vision_lock = None,
      initiative_effect_visibility = None \<rparr>"
  by (simp add: create_empty_def UserOptions_create_def UserOptions_defaults_def Let_def)

text \<open>
  C1. \<open>create_empty\<close> passes \<open>None\<close> for eleven of the thirteen preference fields;
  \<open>mini_size\<close> and \<open>ppi\<close> are not among its keyword arguments and keep their
  defaults 1 and 96. On every store, \<open>as_dict\<close> of the created record is therefore
  the two-entry dictionary below, not the empty one.
\<close>

theorem create_empty_as_dict:
  "UserOptions_as_dict (fst (create_empty db)) = [(''mini_size'', PyInt 1), (''ppi'', PyInt 96)]"
  by (simp add: create_empty_instance UserOptions_as_dict_def model_to_dict_def
        UserOptions_fields_def)

lemma key_in_UserOptions_as_dict:
  "k \<in> set (keys (UserOptions_as_dict self)) \<longleftrightarrow>
     k \<noteq> ''id'' \<and> (\<exists>v. (k, v) \<in> set (UserOptions_fields self) \<and> v \<noteq> PyNone)"
  by (force simp: keys_def UserOptions_as_dict_def model_to_dict_def)

lemma keys_UserOptions_as_dict_subset:
  "set (keys (UserOptions_as_dict self)) \<subseteq>
     {''fow_colour'', ''grid_colour'', ''ruler_colour'', ''invert_alt'', ''disable_scroll_to_zoom'',
      ''use_high_dpi'', ''grid_size'', ''use_as_physical_board'', ''mini_size'', ''ppi'',
      ''initiative_camera_lock'', ''initiative_vision_lock'', ''initiative_effect_visibility''}"
proof -
  have "set (keys (UserOptions_as_dict self))
          \<subseteq> set (keys (model_to_dict (UserOptions_fields self) [''id'']))"
    by (auto simp: keys_def UserOptions_as_dict_def)
  also have "keys (model_to_dict (UserOptions_fields self) [''id'']) =
     [''fow_colour'', ''grid_colour'', ''ruler_colour'', ''invert_alt'', ''disable_scroll_to_zoom'',
      ''use_high_dpi'', ''grid_size'', ''use_as_physical_board'', ''mini_size'', ''ppi'',
      ''initiative_camera_lock'', ''initiative_vision_lock'', ''initiative_effect_visibility'']"
    by (simp add: keys_def model_to_dict_def UserOptions_fields_def)
  finally show ?thesis by simp
qed

lemma distinct_keys_UserOptions_as_dict: "distinct (keys (UserOptions_as_dict self))"
  unfolding keys_def UserOptions_as_dict_def model_to_dict_def
  by (rule distinct_map_filter, rule distinct_map_filter) (simp add: UserOptions_fields_def)

text \<open>
  C7. For every \<open>UserOptions\<close> record, \<open>as_dict\<close> has the key of a preference field
  exactly when that field's value is not null, it never has the key \<open>id\<close>, it has no
  key besides the thirteen preference fields, and no key twice. The method only reads the
  record: it is a function of the record's value and returns nothing but the dictionary.
\<close>

theorem UserOptions_as_dict_keys:
  "(''fow_colour'' \<in> set (keys (UserOptions_as_dict self))) = (fow_colour self \<noteq> None)
   \<and> (''grid_colour'' \<in> set (keys (UserOptions_as_dict self))) = (grid_colour self \<noteq> None)
   \<and> (''ruler_colour'' \<in> set (keys (UserOptions_as_dict self))) = (ruler_colour self \<noteq> None)
   \<and> (''invert_alt'' \<in> set (keys (UserOptions_as_dict self))) = (invert_alt self \<noteq> None)
   \<and> (''disable_scroll_to_zoom'' \<in> set (keys (UserOptions_as_dict self)))
        = (disable_scroll_to_zoom self \<noteq> None)
   \<and> (''use_high_dpi'' \<in> set (keys (UserOptions_as_dict self))) = (use_high_dpi self \<noteq> None)
   \<and> (''grid_size'' \<in> set (keys (UserOptions_as_dict self))) = (grid_size self \<noteq> None)
   \<and> (''use_as_physical_board'' \<in> set (keys (UserOptions_as_dict self)))
        = (use_as_physical_board self \<noteq> None)
   \<and> (''mini_size'' \<in> set (keys (UserOptions_as_dict self))) = (mini_size self \<noteq> None)
   \<and> (''ppi'' \<in> set (keys (UserOptions_as_dict self))) = (ppi self \<noteq> None)
   \<and> (''initiative_camera_lock'' \<in> set (keys (UserOptions_as_dict self)))
        = (initiative_camera_lock self \<noteq> None)
   \<and> (''initiative_vision_lock'' \<in> set (keys (UserOptions_as_dict self)))
        = (initiative_vision_lock self \<noteq> None)
   \<and> (''initiative_effect_visibility'' \<in> set (keys (UserOptions_as_dict self)))
        = (initiative_effect_visibility self \<noteq> None)
   \<and> ''id'' \<notin> set (keys (UserOptions_as_dict self))
   \<and> set (keys (UserOptions_as_dict self)) \<subseteq>
       {''fow_colour'', ''grid_colour'', ''ruler_colour'', ''invert_alt'', ''disable_scroll_to_zoom'',
        ''use_high_dpi'', ''grid_size'', ''use_as_physical_board'', ''mini_size'', ''ppi'',
        ''initiative_camera_lock'', ''initiative_vision_lock'', ''initiative_effect_visibility''}
   \<and> distinct (keys (UserOptions_as_dict self))"
proof -
  note d = distinct_keys_UserOptions_as_dict [of self]
  note s = keys_UserOptions_as_dict_subset [of self]
  show ?thesis
    by (simp only: d s simp_thms) (simp add: key_in_UserOptions_as_dict UserOptions_fields_def)
qed

section \<open>Properties of the text encoding\<close>

lemma encode_codepoint_scalar: "(\<exists>bs. encode_codepoint c = Some bs) \<longleftrightarrow> scalar_value c"
  by (auto simp: encode_codepoint_def scalar_value_def)

text \<open>Encoding fails on surrogates only (and on nothing that a \<open>str\<close> can hold besides).\<close>

lemma encode_utf8_succeeds: "(\<exists>bs. encode_utf8 p = Inr bs) \<longleftrightarrow> list_all scalar_value p"
proof (induction p)
  case Nil
  show ?case by simp
next
  case (Cons c cs)
  show ?case
  proof (cases "encode_codepoint c")
    case None
    with encode_codepoint_scalar [of c] show ?thesis by simp
  next
    case (Some bs)
    with encode_codepoint_scalar [of c] have "scalar_value c" by auto
    with Some Cons.IH show ?thesis by (auto split: sum.splits)
  qed
qed

text \<open>ASCII octets decode to themselves, and encode back to themselves.\<close>

lemma ascii_decode: "list_all (\<lambda>b. b < 0x80) h \<Longrightarrow> decode_utf8 h = Inr (map unat h)"
  by (induction h) (simp_all add: prepend_def)

lemma ascii_encode: "list_all (\<lambda>b. b < 0x80) h \<Longrightarrow> encode_utf8 (map unat h) = Inr h"
  by (induction h) (simp_all add: encode_codepoint_def word_less_nat_alt)

section \<open>The concrete inputs, evaluated\<close>

lemmas stub_defs = bcrypt_stub_def stub_hashpw_def stub_checkpw_def well_formed_salt_def
  salt0_def bytes_of_def crypt_alphabet_def stub_digest_def

lemma encode_pw: "encode_utf8 (str ''pw'') = Inr [112, 119]"
  by (simp add: encode_codepoint_def str_def)



lemma stub_hashes_pw: "hashes_and_verifies bcrypt_stub [112, 119] salt0"
  by (simp add: hashes_and_verifies_def stub_defs)

lemma set_password_alice:
  "set_password bcrypt_stub salt0 alice (str ''pw'') db0 = Inr (alice_with_password, db0)"
  by (simp add: set_password_def encode_pw)
     (simp add: alice_with_password_def hash0_def str_def stub_defs prepend_def)

section \<open>Properties of User\<close>

text \<open>
  C2. For every account, whatever its stored hash, the dictionary of \<open>as_dict\<close> has no
  key \<open>password_hash\<close>, and it is the same dictionary whatever the stored hash is: the
  hash is under no key. In particular this holds for the account that \<open>set_password\<close>
  leaves behind.
\<close>

theorem User_as_dict_hides_password_hash:
  "''password_hash'' \<notin> set (keys (User_as_dict self))
   \<and> User_as_dict (self\<lparr>password_hash := h\<rparr>) = User_as_dict self
   \<and> (case set_password B salt self pw db of
         Inl e \<Rightarrow> True
       | Inr (self', db') \<Rightarrow> ''password_hash'' \<notin> set (keys (User_as_dict self')))"
  by (simp add: User_as_dict_def model_to_dict_def User_fields_def keys_def
        split: sum.split prod.split)

theorem User_as_dict_hides_password_hash_witness:
  "set_password bcrypt_stub salt0 alice (str ''pw'') db0 = Inr (alice_with_password, db0)
   \<and> password_hash alice_with_password = Some hash0
   \<and> ''password_hash'' \<notin> set (keys (User_as_dict alice_with_password))
   \<and> User_as_dict alice_with_password = User_as_dict alice"
  using User_as_dict_hides_password_hash [of alice "Some hash0" bcrypt_stub salt0 "str ''pw''" db0]
  by (simp add: set_password_alice) (simp add: alice_with_password_def)

text \<open>
  C10. For every account the keys of \<open>as_dict\<close> are exactly \<open>name\<close> and \<open>email\<close>,
  in this order; null values are kept, so \<open>email\<close> is present and maps to \<open>None\<close>
  when no email is set.
\<close>

theorem User_as_dict_keys:
  "keys (User_as_dict self) = [''name'', ''email'']
   \<and> map_of (User_as_dict self) ''email'' = Some (text_value (email self))
   \<and> map_of (User_as_dict (self\<lparr>email := None\<rparr>)) ''email'' = Some PyNone"
  by (simp add: User_as_dict_def model_to_dict_def User_fields_def keys_def)

text \<open>
  C5. On an account whose \<open>password_hash\<close> is \<open>None\<close>, \<open>check_password\<close> returns
  \<open>False\<close> for every candidate and every behaviour of the hashing package: the same
  value a wrong password gives.
\<close>

theorem check_password_without_hash:
  "check_password B (self\<lparr>password_hash := None\<rparr>) pw = Inr False"
  by (simp add: check_password_def)

text \<open>
  C3, as amended. For every password that encodes as UTF-8, if the package hashes the
  encoded password with the drawn salt to an ASCII hash that it verifies against the same
  password, then \<open>set_password\<close> returns and \<open>check_password\<close> with the same password
  on the account it leaves returns \<open>True\<close>.
\<close>

theorem set_then_check_password:
  assumes "encode_utf8 p = Inr pwb" and "hashes_and_verifies B pwb salt"
  shows "case set_password B salt self p db of
           Inl e \<Rightarrow> False
         | Inr (self', db') \<Rightarrow> check_password B self' p = Inr True"
proof -
  from assms(2) obtain h where h: "hashpw B pwb salt = Inr h"
    and ascii: "list_all (\<lambda>b. b < 0x80) h" and ok: "checkpw B pwb h = Inr True"
    by (auto simp: hashes_and_verifies_def split: sum.splits)
  have "set_password B salt self p db = Inr (self\<lparr>password_hash := Some (map unat h)\<rparr>, db)"
    by (simp add: set_password_def assms(1) h ascii_decode [OF ascii])
  moreover have "check_password B (self\<lparr>password_hash := Some (map unat h)\<rparr>) p = Inr True"
    by (simp add: check_password_def assms(1) ascii_encode [OF ascii] ok)
  ultimately show ?thesis by simp
qed

theorem set_then_check_password_witness:
  "encode_utf8 (str ''pw'') = Inr [112, 119] \<and> hashes_and_verifies bcrypt_stub [112, 119] salt0
   \<and> (case set_password bcrypt_stub salt0 alice (str ''pw'') db0 of
           Inl e \<Rightarrow> False
         | Inr (self', db') \<Rightarrow> check_password bcrypt_stub self' (str ''pw'') = Inr True)"
  using set_then_check_password [OF encode_pw stub_hashes_pw, of alice db0]
    encode_pw stub_hashes_pw
  by simp

text \<open>
  C3 as stated fails: a \<open>str\<close> can hold a lone surrogate, which the UTF-8 codec refuses,
  so \<open>set_password\<close> raises before anything is hashed.
\<close>

theorem set_password_surrogate_raises:
  "set_password bcrypt_stub salt0 alice [0xD800] db0 = Inl UnicodeEncodeError"
  by (simp add: set_password_def encode_codepoint_def)




text \<open>
  C9. When \<open>set_password\<close> returns, the store is the one it started from and the account
  differs from the one before in \<open>password_hash\<close> at most: the key, the name, the email
  and the reference to the options are unchanged.
\<close>

theorem set_password_frame:
  assumes "set_password B salt self pw db = Inr (self', db')"
  shows "db' = db \<and> self' = self\<lparr>password_hash := password_hash self'\<rparr>
         \<and> user_id self' = user_id self \<and> name self' = name self
         \<and> email self' = email self \<and> default_options self' = default_options self"
  using assms by (auto simp: set_password_def split: sum.splits)

theorem set_password_frame_witness:
  "set_password bcrypt_stub salt0 alice (str ''pw'') db0 = Inr (alice_with_password, db0)
   \<and> alice_with_password = alice\<lparr>password_hash := password_hash alice_with_password\<rparr>
   \<and> user_id alice_with_password = user_id alice \<and> name alice_with_password = name alice
   \<and> email alice_with_password = email alice
   \<and> default_options alice_with_password = default_options alice"
  using set_password_frame [OF set_password_alice] set_password_alice by simp

text \<open>
  C8. \<open>by_name\<close> lowers the column with the store's \<open>LOWER\<close> and the argument with
  \<open>str.lower\<close>, and the two disagree on letters outside ASCII: the stored name keeps
  its capital, the argument loses it. An account whose name has such a capital is therefore
  not found under its own, exact name: the table holds the row, and \<open>by_name\<close> returns
  \<open>None\<close>.
\<close>

theorem by_name_exact_name_not_found:
  "emile \<in> set (user_table db1) \<and> name emile = Some emile_name
   \<and> sql_lower emile_name = emile_name
   \<and> lower_latin1 emile_name = [0xE9, 109, 105, 108, 101]
   \<and> by_name sql_lower lower_latin1 db1 emile_name = None"
  by (simp add: db1_def emile_def alice_def emile_name_def str_def sql_lower_def
        lower_ascii_letter_def lower_latin1_def by_name_def name_matches_def)

section \<open>What by_name does on names whose capitals are ASCII\<close>

lemma lower_ascii_letter_eq:
  "(lower_ascii_letter a = lower_ascii_letter b) = same_letter a b"
  by (auto simp: lower_ascii_letter_def same_letter_def)

lemma sql_lower_eq: "(sql_lower s = sql_lower n) = equal_ignoring_case s n"
proof -
  have "(sql_lower s = sql_lower n)
          = list_all2 (=) (map lower_ascii_letter s) (map lower_ascii_letter n)"
    by (simp add: sql_lower_def list.rel_eq)
  also have "\<dots> = list_all2 (\<lambda>a b. lower_ascii_letter a = lower_ascii_letter b) s n"
    by (simp add: list.rel_map)
  also have "\<dots> = equal_ignoring_case s n"
    by (simp add: equal_ignoring_case_def lower_ascii_letter_eq)
  finally show ?thesis .
qed

text \<open>
  The positive counterpart: for an argument that \<open>str.lower\<close> lowers in its letters A to Z
  only (every ASCII name is one), \<open>by_name\<close> returns the first row of the user table
  whose stored name equals the argument up to the case of the letters A to Z, and
  \<open>None\<close> when the table has no such row.
\<close>

theorem by_name_ascii_case_insensitive:
  assumes "lower n = sql_lower n"
  shows "by_name sql_lower lower db n =
           find (\<lambda>row. case name row of None \<Rightarrow> False
                        | Some stored \<Rightarrow> equal_ignoring_case stored n)
                (user_table db)"
proof -
  have "name_matches sql_lower lower n =
          (\<lambda>row. case name row of None \<Rightarrow> False
                  | Some stored \<Rightarrow> equal_ignoring_case stored n)"
    by (rule ext) (simp add: name_matches_def assms sql_lower_eq split: option.split)
  then show ?thesis by (simp add: by_name_def)
qed

theorem by_name_ascii_case_insensitive_witness:
  "lower_latin1 (str ''Alice'') = sql_lower (str ''Alice'')
   \<and> equal_ignoring_case (str ''alice'') (str ''Alice'')
   \<and> by_name sql_lower lower_latin1 db1 (str ''Alice'') = Some alice
   \<and> by_name sql_lower lower_latin1 db1 (str ''nobody'') = None"
proof -
  have a: "lower_latin1 (str ''Alice'') = sql_lower (str ''Alice'')"
    by (simp add: lower_latin1_def sql_lower_def lower_ascii_letter_def str_def)
  have n: "lower_latin1 (str ''nobody'') = sql_lower (str ''nobody'')"
    by (simp add: lower_latin1_def sql_lower_def lower_ascii_letter_def str_def)
  have e: "equal_ignoring_case (str ''alice'') (str ''Alice'')"
    by (simp add: equal_ignoring_case_def same_letter_def str_def)
  have "by_name sql_lower lower_latin1 db1 (str ''Alice'') = Some alice"
    unfolding by_name_ascii_case_insensitive
      [where lower = lower_latin1 and n = "str ''Alice''", OF a]
    by (simp add: db1_def alice_def e)
  moreover have "by_name sql_lower lower_latin1 db1 (str ''nobody'') = None"
    unfolding by_name_ascii_case_insensitive
      [where lower = lower_latin1 and n = "str ''nobody''", OF n]
    by (simp add: db1_def alice_def emile_def emile_name_def equal_ignoring_case_def
          same_letter_def str_def)
  ultimately show ?thesis using a e by simp
qed

end
